theory Spec2Isabelle
  imports Main
begin

section \<open>The chat widget of static/src/js/chatbot.js\<close>

text \<open>
  The script runs inside one \<open>DOMContentLoaded\<close> handler. It looks up four elements,
  leaves at once when the chat box or the input field is missing, and otherwise defines
  \<open>appendMessage\<close>, \<open>showLoading\<close>, \<open>hideLoading\<close> and the asynchronous \<open>sendMessage\<close>,
  attaches its listeners and appends the welcome message.

  Strings are \<open>string\<close> (lists of 8-bit characters). Handlers run to completion on the
  event loop, so a state of the model is what the page looks like between two callbacks.
\<close>

subsection \<open>Values of a parsed response\<close>

text \<open>
  \<open>res.json()\<close> resolves to any JSON value. Numbers are doubles; the model keeps them
  abstract (type \<open>'n\<close>) and takes what the script needs of them from the engine.
  \<open>JObj\<close> lists the own properties of a parsed object, first binding of a key first.
  A JavaScript value that may be \<open>undefined\<close> is a \<open>json option\<close>, \<open>None\<close> being
  \<open>undefined\<close>.
\<close>

datatype 'n json =
    JNull
  | JBool bool
  | JNum 'n
  | JStr string
  | JArr "'n json list"
  | JObj "(string \<times> 'n json) list"

datatype js_error = Thrown (err_message: string)

text \<open>
  What differs between engines: the truth value and the decimal form of a number, and
  the message texts of the TypeErrors the language itself raises.
\<close>

record 'n engine =
  num_truthy :: "'n \<Rightarrow> bool"
  num_to_string :: "'n \<Rightarrow> string"
  null_read_msg :: "string \<Rightarrow> string"
  undefined_read_msg :: "string \<Rightarrow> string"
  to_primitive_msg :: string

text \<open>The condition of an \<open>if\<close> and the left operand of \<open>||\<close>: ToBoolean.\<close>

fun truthy :: "'n engine \<Rightarrow> 'n json option \<Rightarrow> bool" where
  "truthy e None = False"
| "truthy e (Some JNull) = False"
| "truthy e (Some (JBool b)) = b"
| "truthy e (Some (JNum n)) = num_truthy e n"
| "truthy e (Some (JStr s)) = (s \<noteq> [])"
| "truthy e (Some (JArr xs)) = True"
| "truthy e (Some (JObj kvs)) = True"

text \<open>
  Reading \<open>v.k\<close> for the four names the script reads (\<open>result\<close>, \<open>reply\<close>, \<open>error\<close>,
  \<open>message\<close>): none of them is a property of a prototype, so only an object's own
  property answers; \<open>null\<close> and \<open>undefined\<close> throw a TypeError.
\<close>

fun get_prop :: "'n engine \<Rightarrow> 'n json option \<Rightarrow> string \<Rightarrow> js_error + 'n json option" where
  "get_prop e None k = Inl (Thrown (undefined_read_msg e k))"
| "get_prop e (Some JNull) k = Inl (Thrown (null_read_msg e k))"
| "get_prop e (Some (JObj kvs)) k = Inr (map_of kvs k)"
| "get_prop e (Some v) k = Inr None"

text \<open>
  ToString, as \<open>"Error: " + v\<close> and the assignment to \<open>innerText\<close> apply it. An array is
  joined with commas, a \<open>null\<close> element giving the empty string. A parsed object has no
  callable property of its own, so it converts through \<open>Object.prototype.toString\<close>
  unless an own property named \<open>toString\<close> hides that method, and then the conversion
  throws.
\<close>

fun to_string :: "'n engine \<Rightarrow> 'n json \<Rightarrow> js_error + string"
  and join_elems :: "'n engine \<Rightarrow> 'n json list \<Rightarrow> js_error + string" where
  "to_string e JNull = Inr ''null''"
| "to_string e (JBool b) = Inr (if b then ''true'' else ''false'')"
| "to_string e (JNum n) = Inr (num_to_string e n)"
| "to_string e (JStr s) = Inr s"
| "to_string e (JArr xs) = join_elems e xs"
| "to_string e (JObj kvs) =
     (if ''toString'' \<in> fst ` set kvs then Inl (Thrown (to_primitive_msg e))
      else Inr ''[object Object]'')"
| "join_elems e [] = Inr ''''"
| "join_elems e (x # xs) =
     (case (case x of JNull \<Rightarrow> Inr '''' | _ \<Rightarrow> to_string e x) of
        Inl err \<Rightarrow> Inl err
      | Inr a \<Rightarrow>
          (if xs = [] then Inr a
           else case join_elems e xs of
                  Inl err \<Rightarrow> Inl err
                | Inr b \<Rightarrow> Inr (a @ '','' @ b)))"

definition to_string_opt :: "'n engine \<Rightarrow> 'n json option \<Rightarrow> js_error + string" where
  "to_string_opt e v = (case v of None \<Rightarrow> Inr ''undefined'' | Some j \<Rightarrow> to_string e j)"

text \<open>Sequencing of steps that may throw: the first exception ends the block.\<close>

definition and_then :: "js_error + 'a \<Rightarrow> ('a \<Rightarrow> js_error + 'b) \<Rightarrow> js_error + 'b" where
  "and_then m f = (case m of Inl err \<Rightarrow> Inl err | Inr v \<Rightarrow> f v)"

subsection \<open>The chat box\<close>

text \<open>
  A child of \<open>#chat-box\<close>: its id, its class attribute and its content, set either
  through \<open>innerText\<close> or through \<open>innerHTML\<close>. \<open>document.getElementById\<close> is a search
  among these children, the first match in document order: after its start the script
  looks up no id but the loader's, it puts the loader nowhere but into the chat box, and
  the rest of the page is taken to hold no element with that id.
\<close>

datatype content = InnerText string | InnerHTML string

record element =
  el_id :: string
  el_class :: string
  el_content :: content

definition loading_id :: string where
  "loading_id = ''loading-indicator''"

text \<open>\<open>appendMessage(text, className)\<close>; the scroll position is not modelled.\<close>

definition appendMessage :: "string \<Rightarrow> string \<Rightarrow> element list \<Rightarrow> element list" where
  "appendMessage text className box =
     box @ [\<lparr>el_id = '''', el_class = ''message '' @ className, el_content = InnerText text\<rparr>]"

definition loader :: element where
  \<open>loader = \<lparr>el_id = loading_id, el_class = ''message bot loading'',
     el_content = InnerHTML ''<span class="dot"></span><span class="dot"></span><span class="dot"></span>''\<rparr>\<close>

definition getElementById :: "string \<Rightarrow> element list \<Rightarrow> element option" where
  "getElementById i box = find (\<lambda>el. el_id el = i) box"

definition showLoading :: "element list \<Rightarrow> element list" where
  "showLoading box =
     (case getElementById loading_id box of
        Some found \<Rightarrow> box
      | None \<Rightarrow> box @ [loader])"

text \<open>\<open>loader.remove()\<close> takes the element found, the first with that id, out of the box.\<close>

fun remove_first_id :: "string \<Rightarrow> element list \<Rightarrow> element list" where
  "remove_first_id i [] = []"
| "remove_first_id i (el # els) = (if el_id el = i then els else el # remove_first_id i els)"

definition hideLoading :: "element list \<Rightarrow> element list" where
  "hideLoading box =
     (case getElementById loading_id box of
        Some found \<Rightarrow> remove_first_id loading_id box
      | None \<Rightarrow> box)"

subsection \<open>The page between two callbacks\<close>

text \<open>
  \<open>String.prototype.trim\<close> strips white space and line terminators; among 8-bit
  characters these are TAB, LF, VT, FF, CR, SP and NBSP.
\<close>

definition js_whitespace :: "char \<Rightarrow> bool" where
  "js_whitespace c \<longleftrightarrow>
     c \<in> {CHR 0x09, CHR 0x0A, CHR 0x0B, CHR 0x0C, CHR 0x0D, CHR 0x20, CHR 0xA0}"

definition trim :: "string \<Rightarrow> string" where
  "trim s = rev (dropWhile js_whitespace (rev (dropWhile js_whitespace s)))"

text \<open>The body handed to \<open>fetch\<close>, before \<open>JSON.stringify\<close>, with the fixed path and headers.\<close>

record request =
  req_url :: string
  req_method :: string
  req_content_type :: string
  body_jsonrpc :: string
  body_method :: string
  body_params_message :: string

definition chatbot_request :: "string \<Rightarrow> request" where
  "chatbot_request message =
     \<lparr>req_url = ''/customer_support/chatbot/message'', req_method = ''POST'',
      req_content_type = ''application/json'', body_jsonrpc = ''2.0'',
      body_method = ''call'', body_params_message = message\<rparr>"

text \<open>
  A call of \<open>sendMessage\<close> is suspended twice: at \<open>await fetch(...)\<close> and at
  \<open>await res.json()\<close>. The calls are numbered in the order they issued their request.
\<close>

datatype stage = AwaitingFetch | AwaitingJson | Finished

record state =
  chatBox :: "element list"
  userInput :: string
  sendBtn :: bool
  clearBtn :: bool
  quickReplies :: "string option list"
  requests :: "request list"
  tasks :: "stage list"
  console :: "string list list"

text \<open>
  \<open>manualMsg || userInput.value.trim()\<close>: \<open>manualMsg\<close> is \<open>null\<close> (the default, and what
  \<open>getAttribute\<close> gives for a missing attribute) or a string; \<open>null\<close> and the empty
  string are falsy.
\<close>

definition manual_truthy :: "string option \<Rightarrow> bool" where
  "manual_truthy manualMsg = (case manualMsg of None \<Rightarrow> False | Some m \<Rightarrow> m \<noteq> [])"

definition message_text :: "string option \<Rightarrow> state \<Rightarrow> string" where
  "message_text manualMsg s =
     (case manualMsg of
        None \<Rightarrow> trim (userInput s)
      | Some m \<Rightarrow> if m \<noteq> [] then m else trim (userInput s))"

text \<open>\<open>sendMessage\<close> up to its first suspension: everything before \<open>await fetch\<close>.\<close>

definition issue_fetch :: "string \<Rightarrow> state \<Rightarrow> state" where
  "issue_fetch message s =
     s\<lparr>requests := requests s @ [chatbot_request message],
       tasks := tasks s @ [AwaitingFetch]\<rparr>"

definition before_fetch :: "string option \<Rightarrow> state \<Rightarrow> state" where
  "before_fetch manualMsg s =
     (let message = message_text manualMsg s;
          s1 = s\<lparr>chatBox := appendMessage message ''user'' (chatBox s)\<rparr>;
          s2 = (if \<not> manual_truthy manualMsg then s1\<lparr>userInput := ''''\<rparr> else s1)
      in s2\<lparr>chatBox := showLoading (chatBox s2)\<rparr>)"

definition sendMessage_begin :: "string option \<Rightarrow> state \<Rightarrow> state" where
  "sendMessage_begin manualMsg s =
     (let message = message_text manualMsg s
      in if message = [] then s
         else issue_fetch message (before_fetch manualMsg s))"

text \<open>
  The \<open>catch\<close> block, with \<open>err.message\<close> the text of the exception or rejection.
\<close>

definition catch_block :: "string \<Rightarrow> state \<Rightarrow> state" where
  "catch_block msg s =
     s\<lparr>chatBox := appendMessage (''Error: '' @ msg) ''err'' (hideLoading (chatBox s)),
       console := console s @ [[''Chat error:'', msg]]\<rparr>"

text \<open>
  The \<open>if\<close> chain on the parsed response. It gives the two arguments of the one
  \<open>appendMessage\<close> call it ends in, or the exception thrown before that call changed
  the page: the reads and the string concatenation come first, and inside
  \<open>appendMessage\<close> the assignment to \<open>innerText\<close>, which converts a reply that is not a
  string, precedes \<open>appendChild\<close>.
\<close>

definition interpret_response :: "'n engine \<Rightarrow> 'n json \<Rightarrow> js_error + string \<times> string" where
  "interpret_response e data =
     and_then (get_prop e (Some data) ''result'') (\<lambda>result.
       if truthy e result then
         and_then (get_prop e result ''reply'') (\<lambda>reply.
           if truthy e reply then
             and_then (to_string_opt e reply) (\<lambda>text. Inr (text, ''bot''))
           else
             and_then (get_prop e result ''error'') (\<lambda>err.
               if truthy e err then
                 and_then (to_string_opt e err) (\<lambda>text. Inr (''Error: '' @ text, ''err''))
               else Inr (''Error: Unexpected response format'', ''err'')))
       else
         and_then (get_prop e (Some data) ''error'') (\<lambda>err.
           if truthy e err then
             and_then (get_prop e err ''message'') (\<lambda>msg.
               and_then (to_string_opt e msg) (\<lambda>text. Inr (''Error: '' @ text, ''err'')))
           else Inr (''Error: Could not get response'', ''err'')))"

text \<open>How a promise settles.\<close>

datatype 'a settled = Rejected string | Resolved 'a

text \<open>
  Call \<open>i\<close> resumes after \<open>await fetch\<close>: a rejection goes to the \<open>catch\<close> block, a
  response hides the loader and suspends again at \<open>res.json()\<close>.
\<close>

definition after_fetch :: "nat \<Rightarrow> unit settled \<Rightarrow> state \<Rightarrow> state" where
  "after_fetch i outcome s =
     (case outcome of
        Rejected msg \<Rightarrow> catch_block msg (s\<lparr>tasks := (tasks s)[i := Finished]\<rparr>)
      | Resolved _ \<Rightarrow>
          s\<lparr>chatBox := hideLoading (chatBox s), tasks := (tasks s)[i := AwaitingJson]\<rparr>)"

text \<open>Call \<open>i\<close> resumes after \<open>await res.json()\<close> and runs to its end.\<close>

definition after_json :: "'n engine \<Rightarrow> nat \<Rightarrow> 'n json settled \<Rightarrow> state \<Rightarrow> state" where
  "after_json e i outcome s =
     (let s1 = s\<lparr>tasks := (tasks s)[i := Finished]\<rparr>
      in case outcome of
           Rejected msg \<Rightarrow> catch_block msg s1
         | Resolved data \<Rightarrow>
             (case interpret_response e data of
                Inl err \<Rightarrow> catch_block (err_message err) s1
              | Inr (text, className) \<Rightarrow>
                  s1\<lparr>chatBox := appendMessage text className (chatBox s1)\<rparr>))"

text \<open>
  One call of \<open>sendMessage\<close> with nothing else running in between, given how its
  exchange goes: the request fails, the body does not parse, or the body parses.
\<close>

datatype 'n exchange = FetchFails string | BodyFails string | Body "'n json"

definition sendMessage :: "'n engine \<Rightarrow> string option \<Rightarrow> 'n exchange \<Rightarrow> state \<Rightarrow> state" where
  "sendMessage e manualMsg x s =
     (if message_text manualMsg s = [] then s
      else
        let i = length (tasks s); s1 = sendMessage_begin manualMsg s
        in case x of
             FetchFails msg \<Rightarrow> after_fetch i (Rejected msg) s1
           | BodyFails msg \<Rightarrow> after_json e i (Rejected msg) (after_fetch i (Resolved ()) s1)
           | Body data \<Rightarrow> after_json e i (Resolved data) (after_fetch i (Resolved ()) s1))"

subsection \<open>Listeners and the event loop\<close>

text \<open>
  What the event loop can deliver: a click on the send button, a key pressed in the input
  field, a click on the clear button with the answer given to \<open>confirm\<close>, a click on the
  \<open>i\<close>-th quick reply, the user editing the input field, and the settling of the promise
  a call waits for. An event with no listener, or for a call that does not wait for it,
  changes nothing.
\<close>

datatype 'n event =
    SendClick
  | KeyPress string
  | ClearClick bool
  | QuickReplyClick nat
  | Typed string
  | FetchSettled nat "unit settled"
  | JsonSettled nat "'n json settled"

definition clear_chat :: "bool \<Rightarrow> state \<Rightarrow> state" where
  "clear_chat confirmed s =
     (if confirmed
      then s\<lparr>chatBox := appendMessage ''Chat cleared. How can I help you?'' ''bot'' []\<rparr>
      else s)"

fun fire :: "'n engine \<Rightarrow> 'n event \<Rightarrow> state \<Rightarrow> state" where
  "fire e SendClick s = (if sendBtn s then sendMessage_begin None s else s)"
| "fire e (KeyPress key) s = (if key = ''Enter'' then sendMessage_begin None s else s)"
| "fire e (ClearClick confirmed) s = (if clearBtn s then clear_chat confirmed s else s)"
| "fire e (QuickReplyClick i) s =
     (if i < length (quickReplies s) then sendMessage_begin (quickReplies s ! i) s else s)"
| "fire e (Typed v) s = s\<lparr>userInput := v\<rparr>"
| "fire e (FetchSettled i outcome) s =
     (if i < length (tasks s) \<and> tasks s ! i = AwaitingFetch then after_fetch i outcome s else s)"
| "fire e (JsonSettled i outcome) s =
     (if i < length (tasks s) \<and> tasks s ! i = AwaitingJson then after_json e i outcome s else s)"

fun run :: "'n engine \<Rightarrow> 'n event list \<Rightarrow> state \<Rightarrow> state" where
  "run e [] s = s"
| "run e (ev # evs) s = run e evs (fire e ev s)"

subsection \<open>Page load\<close>

text \<open>
  What \<open>getElementById\<close> and \<open>querySelectorAll\<close> find when the handler runs: the children
  of \<open>#chat-box\<close> and the value of \<open>#user-input\<close> if these elements exist, whether the two
  buttons exist, and the \<open>data-msg\<close> attribute of every \<open>.quick-reply\<close> element.
\<close>

record page =
  chat_box :: "element list option"
  user_input :: "string option"
  send_btn :: bool
  clear_btn :: bool
  quick_replies :: "string option list"

text \<open>
  The handler either leaves after one line on the console, with no listener attached and
  the page as it was, or activates the chat.
\<close>

datatype loaded = NotOnChatPage "string list" | Chat state

definition initialize :: "page \<Rightarrow> loaded" where
  "initialize p =
     (case (chat_box p, user_input p) of
        (Some box, Some v) \<Rightarrow>
          Chat \<lparr>chatBox =
                  appendMessage ''Hello! I'm Dragon Chat. How can I assist you today?'' ''bot'' box,
                userInput = v, sendBtn = send_btn p, clearBtn = clear_btn p,
                quickReplies = quick_replies p, requests = [], tasks = [], console = []\<rparr>
      | _ \<Rightarrow> NotOnChatPage [''Chatbot elements not found - probably not on chatbot page''])"

subsection \<open>The specification's view of the page\<close>

text \<open>
  A Message is an element as \<open>appendMessage\<close> makes it: no id, class \<open>message\<close> plus the
  role's class name, text content. The Conversation Log is the sequence of Messages in
  the chat box; a Pending Request Marker is an element with the loader's id.
\<close>

datatype role = User | Bot | Error

definition role_of_class :: "string \<Rightarrow> role option" where
  "role_of_class c =
     (if c = ''message user'' then Some User
      else if c = ''message bot'' then Some Bot
      else if c = ''message err'' then Some Error
      else None)"

definition message_of :: "element \<Rightarrow> (role \<times> string) option" where
  "message_of el =
     (case (el_id el, role_of_class (el_class el), el_content el) of
        ([], Some r, InnerText t) \<Rightarrow> Some (r, t)
      | _ \<Rightarrow> None)"

fun conversation_log :: "element list \<Rightarrow> (role \<times> string) list" where
  "conversation_log [] = []"
| "conversation_log (el # els) =
     (case message_of el of
        Some m \<Rightarrow> m # conversation_log els
      | None \<Rightarrow> conversation_log els)"

definition marker_count :: "element list \<Rightarrow> nat" where
  "marker_count box = length (filter (\<lambda>el. el_id el = loading_id) box)"

definition loaded_log :: "loaded \<Rightarrow> (role \<times> string) list" where
  "loaded_log l = (case l of NotOnChatPage _ \<Rightarrow> [] | Chat s \<Rightarrow> conversation_log (chatBox s))"

text \<open>
  The field \<open>k\<close> a value carries: the own property of an object, and nothing for any
  other value. The fields of a response that the specification names:
\<close>

definition field :: "'n json option \<Rightarrow> string \<Rightarrow> 'n json option" where
  "field v k = (case v of Some (JObj kvs) \<Rightarrow> map_of kvs k | _ \<Rightarrow> None)"

definition result_field :: "'n json \<Rightarrow> 'n json option" where
  "result_field data = field (Some data) ''result''"

definition reply_field :: "'n json \<Rightarrow> 'n json option" where
  "reply_field data = field (result_field data) ''reply''"

definition result_error_field :: "'n json \<Rightarrow> 'n json option" where
  "result_error_field data = field (result_field data) ''error''"

definition top_error_field :: "'n json \<Rightarrow> 'n json option" where
  "top_error_field data = field (Some data) ''error''"

definition top_error_message :: "'n json \<Rightarrow> 'n json option" where
  "top_error_message data = field (top_error_field data) ''message''"

text \<open>
  An engine to run examples on: numbers restricted to integers, message texts as V8
  words them.
\<close>

fun decimal :: "nat \<Rightarrow> string" where
  "decimal n =
     (if n < 10 then [char_of (48 + n)] else decimal (n div 10) @ [char_of (48 + n mod 10)])"

definition v8_integers :: "int engine" where
  "v8_integers =
     \<lparr>num_truthy = (\<lambda>n. n \<noteq> 0),
      num_to_string = (\<lambda>n. if n < 0 then CHR ''-'' # decimal (nat (- n)) else decimal (nat n)),
      null_read_msg =
        (\<lambda>k. ''Cannot read properties of null (reading '' @ [CHR 0x27] @ k @ [CHR 0x27] @ '')''),
      undefined_read_msg =
        (\<lambda>k. ''Cannot read properties of undefined (reading '' @ [CHR 0x27] @ k @ [CHR 0x27] @ '')''),
      to_primitive_msg = ''Cannot convert object to primitive value''\<rparr>"

definition blank :: state where
  "blank = \<lparr>chatBox = [], userInput = '''', sendBtn = True, clearBtn = True,
            quickReplies = [], requests = [], tasks = [], console = []\<rparr>"

text \<open>States and a page to run examples on.\<close>

definition whitespace_input :: state where
  "whitespace_input = blank\<lparr>userInput := [CHR 0x20, CHR 0x09, CHR 0x20]\<rparr>"


definition track_quick_reply :: state where
  "track_quick_reply =
     blank\<lparr>quickReplies := [Some ''Track my ticket''], userInput := ''typed text''\<rparr>"

definition login_page :: page where
  "login_page = \<lparr>chat_box = None, user_input = None, send_btn = False, clear_btn = False,
                  quick_replies = []\<rparr>"

text \<open>
  Three sends that overlap: the second is issued while the first waits for its response,
  the third while the second waits for its body; then the log is cleared while the third
  is still outstanding.
\<close>

definition overlapping_sends :: "int event list" where
  "overlapping_sends =
     [Typed ''first'', SendClick, Typed ''second'', KeyPress ''Enter'',
      FetchSettled 1 (Resolved ()), Typed ''third'', SendClick,
      JsonSettled 1 (Rejected ''Unexpected token''),
      FetchSettled 0 (Rejected ''Failed to fetch''),
      ClearClick True, FetchSettled 2 (Resolved ()),
      JsonSettled 2 (Resolved (JObj [(''result'', JObj [(''reply'', JStr ''Hi'')])]))]"

subsection \<open>The log and the marker under the operations on the chat box\<close>

lemma log_append [simp]: "conversation_log (xs @ ys) = conversation_log xs @ conversation_log ys"
  by (induction xs) (simp_all split: option.splits)

lemma log_appendMessage_user [simp]:
  "conversation_log (appendMessage t ''user'' box) = conversation_log box @ [(User, t)]"
  by (simp add: appendMessage_def message_of_def role_of_class_def)

lemma log_appendMessage_bot [simp]:
  "conversation_log (appendMessage t ''bot'' box) = conversation_log box @ [(Bot, t)]"
  by (simp add: appendMessage_def message_of_def role_of_class_def)

lemma log_appendMessage_err [simp]:
  "conversation_log (appendMessage t ''err'' box) = conversation_log box @ [(Error, t)]"
  by (simp add: appendMessage_def message_of_def role_of_class_def)

lemma message_of_loading: "el_id el = loading_id \<Longrightarrow> message_of el = None"
  by (simp add: message_of_def loading_id_def split: list.splits)

lemma log_remove_first_id:
  "conversation_log (remove_first_id loading_id box) = conversation_log box"
  by (induction box) (simp_all add: message_of_loading split: option.splits)

lemma log_hideLoading [simp]: "conversation_log (hideLoading box) = conversation_log box"
  by (simp add: hideLoading_def log_remove_first_id split: option.splits)

lemma log_showLoading [simp]: "conversation_log (showLoading box) = conversation_log box"
  by (simp add: showLoading_def message_of_loading loader_def split: option.splits)

lemma getElementById_None: "getElementById loading_id box = None \<longleftrightarrow> marker_count box = 0"
  by (auto simp: getElementById_def marker_count_def find_None_iff filter_empty_conv)

lemma markers_appendMessage [simp]: "marker_count (appendMessage t c box) = marker_count box"
  by (simp add: appendMessage_def marker_count_def loading_id_def)

lemma markers_showLoading:
  "marker_count (showLoading box) = (if marker_count box = 0 then 1 else marker_count box)"
  using getElementById_None [of box]
  by (cases "getElementById loading_id box") (auto simp: showLoading_def marker_count_def loader_def)

lemma markers_remove_first_id:
  "marker_count (remove_first_id loading_id box) = marker_count box - 1"
  by (induction box) (auto simp: marker_count_def)

lemma markers_hideLoading: "marker_count (hideLoading box) = marker_count box - 1"
  using getElementById_None [of box]
  by (cases "getElementById loading_id box") (auto simp: hideLoading_def markers_remove_first_id)

subsection \<open>The phases of a call\<close>

lemma begin_chatBox:
  "message_text manualMsg s \<noteq> [] \<Longrightarrow>
   chatBox (sendMessage_begin manualMsg s) =
     showLoading (appendMessage (message_text manualMsg s) ''user'' (chatBox s))"
  by (simp add: sendMessage_begin_def before_fetch_def issue_fetch_def Let_def)

lemma begin_requests:
  "message_text manualMsg s \<noteq> [] \<Longrightarrow>
   requests (sendMessage_begin manualMsg s) =
     requests s @ [chatbot_request (message_text manualMsg s)]"
  by (simp add: sendMessage_begin_def before_fetch_def issue_fetch_def Let_def)

lemma begin_tasks:
  "message_text manualMsg s \<noteq> [] \<Longrightarrow>
   tasks (sendMessage_begin manualMsg s) = tasks s @ [AwaitingFetch]"
  by (simp add: sendMessage_begin_def before_fetch_def issue_fetch_def Let_def)

lemma begin_userInput:
  "message_text manualMsg s \<noteq> [] \<Longrightarrow>
   userInput (sendMessage_begin manualMsg s) =
     (if manual_truthy manualMsg then userInput s else [])"
  by (simp add: sendMessage_begin_def before_fetch_def issue_fetch_def Let_def)

lemma begin_empty: "message_text manualMsg s = [] \<Longrightarrow> sendMessage_begin manualMsg s = s"
  by (simp add: sendMessage_begin_def)

lemma catch_block_chatBox:
  "chatBox (catch_block msg s) = appendMessage (''Error: '' @ msg) ''err'' (hideLoading (chatBox s))"
  by (simp add: catch_block_def)

lemma after_fetch_chatBox:
  "chatBox (after_fetch i outcome s) =
     (case outcome of
        Rejected msg \<Rightarrow> appendMessage (''Error: '' @ msg) ''err'' (hideLoading (chatBox s))
      | Resolved u \<Rightarrow> hideLoading (chatBox s))"
  by (simp add: after_fetch_def catch_block_def split: settled.splits)

lemma after_json_chatBox:
  "chatBox (after_json e i outcome s) =
     (case outcome of
        Rejected msg \<Rightarrow> appendMessage (''Error: '' @ msg) ''err'' (hideLoading (chatBox s))
      | Resolved data \<Rightarrow>
          (case interpret_response e data of
             Inl err \<Rightarrow> appendMessage (''Error: '' @ err_message err) ''err'' (hideLoading (chatBox s))
           | Inr (text, className) \<Rightarrow> appendMessage text className (chatBox s)))"
  by (simp add: after_json_def catch_block_def Let_def split: settled.splits sum.splits prod.splits)

lemma interpret_class:
  "interpret_response e data = Inr (text, className) \<Longrightarrow> className = ''bot'' \<or> className = ''err''"
  by (auto simp: interpret_response_def and_then_def split: sum.splits if_splits)

lemma after_json_appends_one:
  "\<exists>r t. (r = Bot \<or> r = Error) \<and>
     conversation_log (chatBox (after_json e i outcome s)) = conversation_log (chatBox s) @ [(r, t)]"
proof (cases outcome)
  case (Rejected msg)
  then show ?thesis by (simp add: after_json_chatBox)
next
  case (Resolved data)
  show ?thesis
  proof (cases "interpret_response e data")
    case (Inl err)
    with Resolved show ?thesis by (simp add: after_json_chatBox)
  next
    case (Inr p)
    obtain body cls where p: "p = (body, cls)" by (cases p)
    from Inr p interpret_class [of e data body cls]
    have "cls = ''bot'' \<or> cls = ''err''" by simp
    with Resolved Inr p show ?thesis by (auto simp: after_json_chatBox)
  qed
qed

lemma get_prop_truthy: "truthy e v \<Longrightarrow> get_prop e v k = Inr (field v k)"
  by (cases "(e, v, k)" rule: get_prop.cases) (simp_all add: field_def)

lemma get_prop_not_null: "data \<noteq> JNull \<Longrightarrow> get_prop e (Some data) k = Inr (field (Some data) k)"
  by (cases data) (simp_all add: field_def)

lemma interpret_response_fields:
  assumes "data \<noteq> JNull"
  shows "interpret_response e data =
     (if truthy e (result_field data) then
        if truthy e (reply_field data) then
          and_then (to_string_opt e (reply_field data)) (\<lambda>body. Inr (body, ''bot''))
        else if truthy e (result_error_field data) then
          and_then (to_string_opt e (result_error_field data)) (\<lambda>body. Inr (''Error: '' @ body, ''err''))
        else Inr (''Error: Unexpected response format'', ''err'')
      else if truthy e (top_error_field data) then
        and_then (to_string_opt e (top_error_message data)) (\<lambda>body. Inr (''Error: '' @ body, ''err''))
      else Inr (''Error: Could not get response'', ''err''))"
  using assms
  by (simp add: interpret_response_def get_prop_not_null get_prop_truthy and_then_def
      result_field_def reply_field_def result_error_field_def top_error_field_def
      top_error_message_def)

lemma interpret_response_null:
  "interpret_response e JNull = Inl (Thrown (null_read_msg e ''result''))"
  by (simp add: interpret_response_def and_then_def)

subsection \<open>The marker under the events\<close>

lemma markers_begin:
  "marker_count (chatBox s) \<le> 1 \<Longrightarrow> marker_count (chatBox (sendMessage_begin manualMsg s)) \<le> 1"
  by (cases "message_text manualMsg s = []")
     (simp_all add: begin_empty begin_chatBox markers_showLoading)

lemma markers_after_fetch:
  "marker_count (chatBox s) \<le> 1 \<Longrightarrow> marker_count (chatBox (after_fetch i outcome s)) = 0"
  by (cases outcome) (simp_all add: after_fetch_chatBox markers_hideLoading)

lemma markers_after_json:
  "marker_count (chatBox s) \<le> 1 \<Longrightarrow> marker_count (chatBox (after_json e i outcome s)) \<le> 1"
  by (auto simp: after_json_chatBox markers_hideLoading split: settled.splits sum.splits)

lemma markers_clear_chat:
  "marker_count (chatBox s) \<le> 1 \<Longrightarrow> marker_count (chatBox (clear_chat confirmed s)) \<le> 1"
  by (simp add: clear_chat_def marker_count_def appendMessage_def loading_id_def)

lemma markers_fire:
  "marker_count (chatBox s) \<le> 1 \<Longrightarrow> marker_count (chatBox (fire e ev s)) \<le> 1"
  by (cases ev)
     (simp_all del: One_nat_def
        add: markers_begin markers_after_fetch markers_after_json markers_clear_chat)

lemma markers_run:
  "marker_count (chatBox s) \<le> 1 \<Longrightarrow> marker_count (chatBox (run e evs s)) \<le> 1"
  by (induction evs arbitrary: s) (simp_all del: One_nat_def add: markers_fire)

lemma showLoading_present: "0 < marker_count box \<Longrightarrow> showLoading box = box"
  using getElementById_None [of box]
  by (cases "getElementById loading_id box") (simp_all add: showLoading_def)

lemma hideLoading_absent: "marker_count box = 0 \<Longrightarrow> hideLoading box = box"
  using getElementById_None [of box] by (simp add: hideLoading_def)

subsection \<open>Whole calls\<close>

lemma trim_empty_iff: "trim v = [] \<longleftrightarrow> (\<forall>c \<in> set v. js_whitespace c)"
proof -
  have "set v = set (takeWhile js_whitespace v) \<union> set (dropWhile js_whitespace v)"
    by (metis set_append takeWhile_dropWhile_id)
  then have "(\<forall>c \<in> set (dropWhile js_whitespace v). js_whitespace c) \<longleftrightarrow>
      (\<forall>c \<in> set v. js_whitespace c)"
    by (auto dest: set_takeWhileD)
  then show ?thesis by (simp add: trim_def dropWhile_eq_Nil_conv)
qed

lemma sendMessage_log:
  assumes "message_text manualMsg s \<noteq> []"
  shows "\<exists>r t. (r = Bot \<or> r = Error) \<and>
     conversation_log (chatBox (sendMessage e manualMsg x s)) =
       conversation_log (chatBox s) @ [(User, message_text manualMsg s), (r, t)]"
proof (cases x)
  case (FetchFails d)
  with assms show ?thesis
    by (simp add: sendMessage_def Let_def after_fetch_chatBox begin_chatBox)
next
  case (BodyFails d)
  with assms show ?thesis
    by (simp add: sendMessage_def Let_def after_fetch_chatBox after_json_chatBox begin_chatBox)
next
  case (Body data)
  let ?s2 = "after_fetch (length (tasks s)) (Resolved ()) (sendMessage_begin manualMsg s)"
  from after_json_appends_one [of e "length (tasks s)" "Resolved data" ?s2]
  obtain r t where "r = Bot \<or> r = Error"
    and "conversation_log (chatBox (after_json e (length (tasks s)) (Resolved data) ?s2)) =
      conversation_log (chatBox ?s2) @ [(r, t)]"
    by blast
  with assms Body show ?thesis
    by (simp add: sendMessage_def Let_def after_fetch_chatBox begin_chatBox)
qed

lemma sendMessage_requests:
  "message_text manualMsg s \<noteq> [] \<Longrightarrow>
   requests (sendMessage e manualMsg x s) = requests s @ [chatbot_request (message_text manualMsg s)]"
  by (cases x)
     (simp_all add: sendMessage_def Let_def after_fetch_def after_json_def catch_block_def
        begin_requests split: sum.splits prod.splits)

lemma after_fetch_tasks:
  "tasks (after_fetch i outcome s) =
     (tasks s)[i := (case outcome of Rejected d \<Rightarrow> Finished | Resolved u \<Rightarrow> AwaitingJson)]"
  by (simp add: after_fetch_def catch_block_def split: settled.splits)

lemma begin_buttons:
  "sendBtn (sendMessage_begin manualMsg s) = sendBtn s"
  "clearBtn (sendMessage_begin manualMsg s) = clearBtn s"
  "quickReplies (sendMessage_begin manualMsg s) = quickReplies s"
  by (simp_all add: sendMessage_begin_def before_fetch_def issue_fetch_def Let_def)

section \<open>The claims\<close>

subsection \<open>C1: a reply is rendered as a bot Message\<close>

text \<open>
  Claim C1, as the code has it. The script tests \<open>data.result.reply\<close> for truth, not for
  presence. For every response other than \<open>null\<close> whose \<open>result\<close> is truthy and carries a
  truthy \<open>reply\<close> that converts to the string \<open>t\<close> (a non-empty string converts to
  itself), resuming the call after \<open>res.json()\<close> appends exactly the Message (bot, \<open>t\<close>);
  a whole call with a non-empty message text therefore appends the user Message and
  then (bot, \<open>t\<close>). For \<open>{"result": {"reply": "Hi"}}\<close> this is (bot, \<open>Hi\<close>).
\<close>

theorem reply_rendered_as_bot:
  assumes "data \<noteq> JNull" and "truthy e (result_field data)" and "truthy e (reply_field data)"
    and "to_string_opt e (reply_field data) = Inr t"
  shows "conversation_log (chatBox (after_json e i (Resolved data) s)) =
           conversation_log (chatBox s) @ [(Bot, t)]
         \<and> (message_text manualMsg s \<noteq> [] \<longrightarrow>
             conversation_log (chatBox (sendMessage e manualMsg (Body data) s)) =
               conversation_log (chatBox s) @ [(User, message_text manualMsg s), (Bot, t)])"
proof -
  from assms have r: "interpret_response e data = Inr (t, ''bot'')"
    by (simp add: interpret_response_fields and_then_def)
  then have step: "conversation_log (chatBox (after_json e j (Resolved data) s')) =
      conversation_log (chatBox s') @ [(Bot, t)]" for j s'
    by (simp add: after_json_chatBox)
  show ?thesis
    by (simp add: step sendMessage_def Let_def after_fetch_chatBox begin_chatBox)
qed

theorem reply_rendered_as_bot_witness:
  "conversation_log (chatBox (sendMessage v8_integers (Some ''hello'')
      (Body (JObj [(''result'', JObj [(''reply'', JStr ''Hi'')])])) blank)) =
     [(User, ''hello''), (Bot, ''Hi'')]"
proof -
  let ?data = "JObj [(''result'', JObj [(''reply'', JStr ''Hi'')])] :: int json"
  have "?data \<noteq> JNull" "truthy v8_integers (result_field ?data)"
    "truthy v8_integers (reply_field ?data)"
    "to_string_opt v8_integers (reply_field ?data) = Inr ''Hi''"
    by (simp_all add: result_field_def reply_field_def field_def to_string_opt_def)
  from reply_rendered_as_bot [OF this, of 0 blank "Some ''hello''"]
  show ?thesis by (simp add: message_text_def blank_def)
qed

text \<open>
  The claim as first stated fails on an empty reply: the response
  \<open>{"result": {"reply": ""}}\<close> has a \<open>reply\<close> field, and the Message appended is the
  generic format error, not (bot, empty text).
\<close>

theorem empty_reply_counterexample:
  "conversation_log (chatBox (sendMessage v8_integers (Some ''hello'')
      (Body (JObj [(''result'', JObj [(''reply'', JStr '''')])])) blank)) =
     [(User, ''hello''), (Error, ''Error: Unexpected response format'')]
   \<and> conversation_log (chatBox (sendMessage v8_integers (Some ''hello'')
      (Body (JObj [(''result'', JObj [(''reply'', JStr '''')])])) blank)) \<noteq>
     [(User, ''hello''), (Bot, '''')]"
  by (simp add: sendMessage_def Let_def after_fetch_chatBox after_json_chatBox begin_chatBox
      message_text_def blank_def interpret_response_def and_then_def)

subsection \<open>C2: the error tiers\<close>

text \<open>
  Claim C2, as the code has it. Every test in the chain is a test for truth. When the
  reply tier does not apply (\<open>result.reply\<close> is not truthy), a parsed response other
  than \<open>null\<close> is answered by exactly one error Message:
  \<^item> \<open>result\<close> and \<open>result.error\<close> truthy: \<open>Error: \<close> followed by the string form of
    \<open>result.error\<close>;
  \<^item> \<open>result\<close> truthy, \<open>result.error\<close> not: \<open>Error: Unexpected response format\<close>;
  \<^item> \<open>result\<close> not truthy, top-level \<open>error\<close> truthy: \<open>Error: \<close> followed by the string
    form of \<open>error.message\<close> (\<open>undefined\<close> when there is none);
  \<^item> neither truthy: \<open>Error: Could not get response\<close>.

  The response \<open>null\<close> makes the read of \<open>data.result\<close> throw, and the \<open>catch\<close> block
  shows the engine's message. The two generic texts differ.
\<close>

theorem error_tiers_by_truthiness:
  assumes "\<not> truthy e (reply_field data)"
  shows "(data \<noteq> JNull \<and> truthy e (result_field data) \<and> truthy e (result_error_field data) \<and>
            to_string_opt e (result_error_field data) = Inr t \<longrightarrow>
          conversation_log (chatBox (after_json e i (Resolved data) s)) =
            conversation_log (chatBox s) @ [(Error, ''Error: '' @ t)])
       \<and> (data \<noteq> JNull \<and> truthy e (result_field data) \<and> \<not> truthy e (result_error_field data) \<longrightarrow>
          conversation_log (chatBox (after_json e i (Resolved data) s)) =
            conversation_log (chatBox s) @ [(Error, ''Error: Unexpected response format'')])
       \<and> (data \<noteq> JNull \<and> \<not> truthy e (result_field data) \<and> truthy e (top_error_field data) \<and>
            to_string_opt e (top_error_message data) = Inr t \<longrightarrow>
          conversation_log (chatBox (after_json e i (Resolved data) s)) =
            conversation_log (chatBox s) @ [(Error, ''Error: '' @ t)])
       \<and> (data \<noteq> JNull \<and> \<not> truthy e (result_field data) \<and> \<not> truthy e (top_error_field data) \<longrightarrow>
          conversation_log (chatBox (after_json e i (Resolved data) s)) =
            conversation_log (chatBox s) @ [(Error, ''Error: Could not get response'')])
       \<and> (data = JNull \<longrightarrow>
          conversation_log (chatBox (after_json e i (Resolved data) s)) =
            conversation_log (chatBox s) @ [(Error, ''Error: '' @ null_read_msg e ''result'')])
       \<and> ''Error: Unexpected response format'' \<noteq> ''Error: Could not get response''"
  using assms
  by (auto simp: after_json_chatBox interpret_response_fields interpret_response_null and_then_def)

theorem error_tiers_by_truthiness_witness:
  "conversation_log (chatBox (after_json v8_integers 0
      (Resolved (JObj [(''result'', JObj [(''error'', JStr ''bad input'')])])) blank)) =
     [(Error, ''Error: bad input'')]
   \<and> conversation_log (chatBox (after_json v8_integers 0
      (Resolved (JObj [(''result'', JObj [])])) blank)) =
     [(Error, ''Error: Unexpected response format'')]
   \<and> conversation_log (chatBox (after_json v8_integers 0
      (Resolved (JObj [(''error'', JObj [(''message'', JStr ''down'')])])) blank)) =
     [(Error, ''Error: down'')]
   \<and> conversation_log (chatBox (after_json v8_integers 0 (Resolved (JObj [])) blank)) =
     [(Error, ''Error: Could not get response'')]"
proof -
  let ?d1 = "JObj [(''result'', JObj [(''error'', JStr ''bad input'')])] :: int json"
  let ?d2 = "JObj [(''result'', JObj [])] :: int json"
  let ?d3 = "JObj [(''error'', JObj [(''message'', JStr ''down'')])] :: int json"
  let ?d4 = "JObj [] :: int json"
  note defs = result_field_def reply_field_def result_error_field_def top_error_field_def
    top_error_message_def field_def to_string_opt_def blank_def
  have n: "\<not> truthy v8_integers (reply_field ?d1)" "\<not> truthy v8_integers (reply_field ?d2)"
    "\<not> truthy v8_integers (reply_field ?d3)" "\<not> truthy v8_integers (reply_field ?d4)"
    by (simp_all add: defs)
  from error_tiers_by_truthiness [OF n(1), of "''bad input''" 0 blank]
    error_tiers_by_truthiness [OF n(2), of "''''" 0 blank]
    error_tiers_by_truthiness [OF n(3), of "''down''" 0 blank]
    error_tiers_by_truthiness [OF n(4), of "''''" 0 blank]
  show ?thesis by (simp add: defs)
qed

text \<open>
  The claim as first stated fails on an empty error text: \<open>{"result": {"error": ""}}\<close>
  carries an \<open>error\<close> field, and the Message is the generic format error, not
  \<open>Error: \<close> followed by the empty text.
\<close>

theorem empty_result_error_counterexample:
  "conversation_log (chatBox (after_json v8_integers 0
      (Resolved (JObj [(''result'', JObj [(''error'', JStr '''')])])) blank)) =
     [(Error, ''Error: Unexpected response format'')]
   \<and> conversation_log (chatBox (after_json v8_integers 0
      (Resolved (JObj [(''result'', JObj [(''error'', JStr '''')])])) blank)) \<noteq>
     [(Error, ''Error: '' @ '''')]"
  by (simp add: after_json_chatBox blank_def interpret_response_def and_then_def)

subsection \<open>C3: transport failures\<close>

text \<open>
  Claim C3. In a state with at most one marker, a rejection of \<open>fetch\<close> or of
  \<open>res.json()\<close> with description \<open>d\<close> is caught: the call appends exactly the Message
  (error, \<open>Error: d\<close>), and no marker is left. The marker is gone as soon as \<open>fetch\<close>
  settles either way, and after a whole call with a non-empty message text, however
  its exchange went.
\<close>

theorem transport_failure_surfaces:
  assumes "marker_count (chatBox s) \<le> 1"
  shows "conversation_log (chatBox (after_fetch i (Rejected d) s)) =
           conversation_log (chatBox s) @ [(Error, ''Error: '' @ d)]
       \<and> conversation_log (chatBox (after_json e i (Rejected d) s)) =
           conversation_log (chatBox s) @ [(Error, ''Error: '' @ d)]
       \<and> marker_count (chatBox (after_fetch i outcome s)) = 0
       \<and> marker_count (chatBox (after_json e i (Rejected d) s)) = 0
       \<and> (message_text manualMsg s \<noteq> [] \<longrightarrow>
            conversation_log (chatBox (sendMessage e manualMsg (FetchFails d) s)) =
              conversation_log (chatBox s) @ [(User, message_text manualMsg s), (Error, ''Error: '' @ d)]
          \<and> conversation_log (chatBox (sendMessage e manualMsg (BodyFails d) s)) =
              conversation_log (chatBox s) @ [(User, message_text manualMsg s), (Error, ''Error: '' @ d)]
          \<and> marker_count (chatBox (sendMessage e manualMsg x s)) = 0)"
proof -
  have fetch: "marker_count (chatBox (after_fetch j out s')) = 0"
    if "marker_count (chatBox s') \<le> 1" for s' :: state and j out
    using that by (cases out) (simp_all add: after_fetch_chatBox markers_hideLoading)
  have json: "marker_count (chatBox (after_json e j out s')) = 0"
    if "marker_count (chatBox s') = 0" for s' :: state and j and out :: "'a json settled"
    using that
    by (auto simp: after_json_chatBox markers_hideLoading split: settled.splits sum.splits)
  have started: "marker_count (chatBox (sendMessage_begin manualMsg s)) \<le> 1"
    if "message_text manualMsg s \<noteq> []"
    using that assms by (simp add: begin_chatBox markers_showLoading)
  have run: "marker_count (chatBox (sendMessage e manualMsg x s)) = 0"
    if "message_text manualMsg s \<noteq> []"
    using that fetch [OF started [OF that]]
    by (cases x) (simp_all add: sendMessage_def Let_def json)
  show ?thesis
    using assms fetch [OF assms] run
    by (simp add: after_fetch_chatBox after_json_chatBox markers_hideLoading sendMessage_def
        Let_def begin_chatBox)
qed

theorem transport_failure_surfaces_witness:
  "conversation_log (chatBox (sendMessage v8_integers (Some ''hello'') (FetchFails ''timeout'') blank)) =
     [(User, ''hello''), (Error, ''Error: timeout'')]
   \<and> marker_count (chatBox (sendMessage v8_integers (Some ''hello'') (FetchFails ''timeout'') blank)) = 0"
proof -
  have "marker_count (chatBox blank) \<le> 1" by (simp add: blank_def marker_count_def)
  from transport_failure_surfaces [OF this, of 0 "''timeout''" v8_integers "Resolved ()"
      "Some ''hello''" "FetchFails ''timeout''"]
  show ?thesis by (simp add: message_text_def blank_def)
qed

subsection \<open>C4: at most one marker\<close>

text \<open>
  Claim C4. From a state with at most one Pending Request Marker, every sequence of
  events, in any interleaving of overlapping calls, leads to a state with at most one
  marker; the states passed on the way are the states after the prefixes of the
  sequence. \<open>showLoading\<close> on a box that holds a marker inserts nothing, so showing twice
  is showing once. A page whose chat box holds at most one such element starts the chat
  in a state of this kind.
\<close>

theorem at_most_one_marker:
  assumes "marker_count (chatBox s) \<le> 1"
  shows "marker_count (chatBox (run e evs s)) \<le> 1
       \<and> (0 < marker_count box \<longrightarrow> showLoading box = box)
       \<and> showLoading (showLoading box) = showLoading box
       \<and> (chat_box p = Some children \<and> user_input p = Some v \<and> marker_count children \<le> 1 \<longrightarrow>
            (\<exists>s0. initialize p = Chat s0 \<and> marker_count (chatBox (run e evs s0)) \<le> 1))"
proof -
  have "0 < marker_count (showLoading box)" by (simp add: markers_showLoading)
  then have idem: "showLoading (showLoading box) = showLoading box"
    by (rule showLoading_present)
  have "marker_count (chatBox (run e evs s0)) \<le> 1"
    if "initialize p = Chat s0" "chat_box p = Some children" "user_input p = Some v"
      "marker_count children \<le> 1" for s0
  proof -
    from that have "marker_count (chatBox s0) \<le> 1" by (auto simp: initialize_def)
    then show ?thesis by (rule markers_run)
  qed
  moreover have "\<exists>s0. initialize p = Chat s0"
    if "chat_box p = Some children" "user_input p = Some v"
    using that by (simp add: initialize_def)
  ultimately show ?thesis
    using assms by (auto simp del: One_nat_def simp add: markers_run showLoading_present idem)
qed

theorem at_most_one_marker_witness:
  "marker_count (chatBox (run v8_integers overlapping_sends blank)) \<le> 1
   \<and> marker_count (chatBox (run v8_integers (take 7 overlapping_sends) blank)) = 1
   \<and> showLoading [loader] = [loader]"
proof -
  have "marker_count (chatBox blank) \<le> 1" by (simp add: blank_def marker_count_def)
  from at_most_one_marker [OF this, of v8_integers overlapping_sends "[loader]"]
  have "marker_count (chatBox (run v8_integers overlapping_sends blank)) \<le> 1"
    and "showLoading [loader] = [loader]"
    by (simp_all add: marker_count_def loader_def)
  moreover have "marker_count (chatBox (run v8_integers (take 7 overlapping_sends) blank)) = 1"
    by (simp add: overlapping_sends_def blank_def sendMessage_begin_def before_fetch_def
        issue_fetch_def message_text_def manual_truthy_def trim_def js_whitespace_def
        after_fetch_def after_json_def catch_block_def Let_def appendMessage_def showLoading_def
        hideLoading_def getElementById_def loader_def loading_id_def marker_count_def)
  ultimately show ?thesis by simp
qed

subsection \<open>C5: one user Message, then one result Message\<close>

text \<open>
  Claim C5. For a non-empty message text, the part of \<open>sendMessage\<close> before the request
  appends exactly the user Message and issues no request; the request is issued on the
  state that already holds that Message, and it is the only one. A response to \<open>fetch\<close>
  appends nothing; a rejection of \<open>fetch\<close>, and the settling of \<open>res.json()\<close> either way,
  append exactly one Message, with role bot or error, and issue no request. So a whole
  call appends the user Message and then one bot or error Message, and sends one request.
\<close>

theorem one_user_then_one_result:
  assumes "message_text manualMsg s \<noteq> []"
  shows "sendMessage_begin manualMsg s =
           issue_fetch (message_text manualMsg s) (before_fetch manualMsg s)
       \<and> conversation_log (chatBox (before_fetch manualMsg s)) =
           conversation_log (chatBox s) @ [(User, message_text manualMsg s)]
       \<and> requests (before_fetch manualMsg s) = requests s
       \<and> requests (sendMessage_begin manualMsg s) =
           requests s @ [chatbot_request (message_text manualMsg s)]
       \<and> conversation_log (chatBox (sendMessage_begin manualMsg s)) =
           conversation_log (chatBox s) @ [(User, message_text manualMsg s)]
       \<and> conversation_log (chatBox (after_fetch i (Resolved ()) s')) = conversation_log (chatBox s')
       \<and> requests (after_fetch i fetched s') = requests s'
       \<and> conversation_log (chatBox (after_fetch i (Rejected d) s')) =
           conversation_log (chatBox s') @ [(Error, ''Error: '' @ d)]
       \<and> (\<exists>r t. (r = Bot \<or> r = Error) \<and>
             conversation_log (chatBox (after_json e i parsed s')) =
               conversation_log (chatBox s') @ [(r, t)])
       \<and> requests (after_json e i parsed s') = requests s'
       \<and> (\<exists>r t. (r = Bot \<or> r = Error) \<and>
             conversation_log (chatBox (sendMessage e manualMsg x s)) =
               conversation_log (chatBox s) @ [(User, message_text manualMsg s), (r, t)])
       \<and> requests (sendMessage e manualMsg x s) =
           requests s @ [chatbot_request (message_text manualMsg s)]"
proof -
  have 1: "sendMessage_begin manualMsg s =
      issue_fetch (message_text manualMsg s) (before_fetch manualMsg s)"
    using assms by (simp add: sendMessage_begin_def)
  have 2: "conversation_log (chatBox (before_fetch manualMsg s)) =
      conversation_log (chatBox s) @ [(User, message_text manualMsg s)]"
    by (simp add: before_fetch_def Let_def)
  have 3: "requests (before_fetch manualMsg s) = requests s"
    by (simp add: before_fetch_def Let_def)
  have 4: "conversation_log (chatBox (sendMessage_begin manualMsg s)) =
      conversation_log (chatBox s) @ [(User, message_text manualMsg s)]"
    using assms by (simp add: begin_chatBox)
  have 5: "conversation_log (chatBox (after_fetch i (Resolved ()) s')) =
      conversation_log (chatBox s')"
    by (simp add: after_fetch_chatBox)
  have 6: "requests (after_fetch i fetched s') = requests s'"
    by (simp add: after_fetch_def catch_block_def split: settled.splits)
  have 7: "conversation_log (chatBox (after_fetch i (Rejected d) s')) =
      conversation_log (chatBox s') @ [(Error, ''Error: '' @ d)]"
    by (simp add: after_fetch_chatBox)
  have 8: "requests (after_json e i parsed s') = requests s'"
    by (simp add: after_json_def catch_block_def Let_def
        split: settled.splits sum.splits prod.splits)
  show ?thesis
    by (intro conjI 1 2 3 4 5 6 7 8 begin_requests [OF assms] after_json_appends_one
        sendMessage_log [OF assms] sendMessage_requests [OF assms])
qed

theorem one_user_then_one_result_witness:
  "conversation_log (chatBox (sendMessage_begin None (blank\<lparr>userInput := '' order status ''\<rparr>))) =
     [(User, ''order status'')]
   \<and> map body_params_message (requests (sendMessage_begin None (blank\<lparr>userInput := '' order status ''\<rparr>))) =
     [''order status'']
   \<and> length (conversation_log (chatBox (sendMessage v8_integers None
        (Body (JObj [(''result'', JObj [(''reply'', JStr ''Shipped'')])]))
        (blank\<lparr>userInput := '' order status ''\<rparr>)))) = 2"
proof -
  let ?s = "blank\<lparr>userInput := '' order status ''\<rparr>"
  have t: "trim '' order status '' = ''order status''"
    by (simp add: trim_def js_whitespace_def)
  then have m: "message_text None ?s = ''order status''"
    by (simp add: message_text_def)
  then have "message_text None ?s \<noteq> []" by simp
  note facts = one_user_then_one_result [OF this, where e = v8_integers
      and x = "Body (JObj [(''result'', JObj [(''reply'', JStr ''Shipped'')])])", unfolded m]
  let ?x = "Body (JObj [(''result'', JObj [(''reply'', JStr ''Shipped'')])]) :: int exchange"
  from facts have a: "conversation_log (chatBox (sendMessage_begin None ?s)) =
      conversation_log (chatBox ?s) @ [(User, ''order status'')]"
    and b: "requests (sendMessage_begin None ?s) = requests ?s @ [chatbot_request ''order status'']"
    and c: "\<exists>r t. (r = Bot \<or> r = Error) \<and>
      conversation_log (chatBox (sendMessage v8_integers None ?x ?s)) =
        conversation_log (chatBox ?s) @ [(User, ''order status''), (r, t)]"
    by blast+
  have "conversation_log (chatBox ?s) = []" "requests ?s = []"
    by (simp_all add: blank_def)
  with a b c show ?thesis
    by (auto simp: chatbot_request_def)
qed


subsection \<open>C6: empty input\<close>

text \<open>
  Claim C6. When the input field holds nothing but white space, its trimmed value is
  empty, and a send with no text of its own (\<open>null\<close> or the empty string), from the send
  button or from any key, leaves the whole state as it was: no Message, no request, the
  log and the marker unchanged.
\<close>

theorem blank_input_is_noop:
  assumes "\<forall>c \<in> set (userInput s). js_whitespace c"
  shows "trim (userInput s) = []
       \<and> sendMessage_begin None s = s \<and> sendMessage e None x s = s
       \<and> sendMessage_begin (Some '''') s = s \<and> sendMessage e (Some '''') x s = s
       \<and> fire e SendClick s = s \<and> fire e (KeyPress key) s = s"
proof -
  from assms have "trim (userInput s) = []" by (simp add: trim_empty_iff)
  then have "message_text None s = []" "message_text (Some '''') s = []"
    by (simp_all add: message_text_def)
  then show ?thesis
    using \<open>trim (userInput s) = []\<close> by (simp add: begin_empty sendMessage_def)
qed

theorem blank_input_is_noop_witness:
  "sendMessage v8_integers None (Body (JObj [])) whitespace_input = whitespace_input
   \<and> fire v8_integers SendClick whitespace_input = whitespace_input
   \<and> requests whitespace_input = [] \<and> chatBox whitespace_input = []"
proof -
  have "\<forall>c \<in> set (userInput whitespace_input). js_whitespace c"
    by (simp add: whitespace_input_def blank_def js_whitespace_def)
  from blank_input_is_noop [OF this, of v8_integers "Body (JObj [])"]
  show ?thesis by (simp add: whitespace_input_def blank_def)
qed


subsection \<open>C7: clearing the log\<close>




subsection \<open>C8: quick replies\<close>





subsection \<open>C9: a page without the chat\<close>

text \<open>
  Claim C9. When the chat box or the input field is missing, the handler returns after
  its console line: no chat is activated, so no listener exists and no event has a state
  to act on, and the log it leaves holds no Message, the greeting included. The handler
  has no step that can throw on this path.
\<close>

theorem absent_surface_is_skipped:
  assumes "chat_box p = None \<or> user_input p = None"
  shows "initialize p =
           NotOnChatPage [''Chatbot elements not found - probably not on chatbot page'']
       \<and> loaded_log (initialize p) = []
       \<and> (\<forall>s. initialize p \<noteq> Chat s)"
  using assms
  by (auto simp: initialize_def loaded_log_def split: option.splits)

theorem absent_surface_is_skipped_witness:
  "initialize login_page =
     NotOnChatPage [''Chatbot elements not found - probably not on chatbot page'']
   \<and> loaded_log (initialize login_page) = []"
proof -
  have "chat_box login_page = None \<or> user_input login_page = None"
    by (simp add: login_page_def)
  from absent_surface_is_skipped [OF this] show ?thesis by blast
qed


subsection \<open>C10: overlapping sends\<close>

text \<open>
  Claim C10. Let a second send be issued while the first waits for its response, both
  with a non-empty message text, from a state with at most one marker. After the first
  send there is one marker; the second inserts none and only appends its user Message,
  so the two share the marker. Whichever of the two requests settles first, by a response
  or by a failure, takes the marker away while the other call still waits; from then on
  \<open>hideLoading\<close> changes nothing, and the settling of the other request leaves no marker
  either.
\<close>

theorem overlapping_sends_share_marker:
  assumes "marker_count (chatBox s) \<le> 1"
    and "message_text a s \<noteq> []"
    and "s1 = sendMessage_begin a s"
    and "message_text b (s1\<lparr>userInput := v\<rparr>) \<noteq> []"
    and "s2 = sendMessage_begin b (s1\<lparr>userInput := v\<rparr>)"
    and "(i = length (tasks s) \<and> j = Suc (length (tasks s))) \<or>
         (i = Suc (length (tasks s)) \<and> j = length (tasks s))"
    and "s3 = fire e (FetchSettled i first) s2"
  shows "marker_count (chatBox s1) = 1
       \<and> chatBox s2 = appendMessage (message_text b (s1\<lparr>userInput := v\<rparr>)) ''user'' (chatBox s1)
       \<and> marker_count (chatBox s2) = 1
       \<and> tasks s2 ! i = AwaitingFetch \<and> tasks s2 ! j = AwaitingFetch
       \<and> marker_count (chatBox s3) = 0
       \<and> tasks s3 ! j = AwaitingFetch
       \<and> hideLoading (chatBox s3) = chatBox s3
       \<and> marker_count (chatBox (fire e (FetchSettled j second) s3)) = 0"
proof -
  let ?n = "length (tasks s)"
  let ?s1' = "s1\<lparr>userInput := v\<rparr>"
  have m1: "marker_count (chatBox s1) = 1"
    using assms(1,2,3) by (auto simp: begin_chatBox markers_showLoading)
  then have shown: "0 < marker_count (appendMessage (message_text b ?s1') ''user'' (chatBox s1))"
    by simp
  have box2: "chatBox s2 = appendMessage (message_text b ?s1') ''user'' (chatBox s1)"
    using assms(4,5) showLoading_present [OF shown] by (simp add: begin_chatBox)
  then have m2: "marker_count (chatBox s2) = 1" using m1 by simp
  have t2: "tasks s2 = tasks s @ [AwaitingFetch, AwaitingFetch]"
    using assms(2,3,4,5) by (simp add: begin_tasks)
  then have ij: "tasks s2 ! i = AwaitingFetch" "tasks s2 ! j = AwaitingFetch"
    "i < length (tasks s2)" "j < length (tasks s2)" "i \<noteq> j"
    using assms(6) by (auto simp: nth_append)
  then have s3: "s3 = after_fetch i first s2" using assms(7) by simp
  have m3: "marker_count (chatBox s3) = 0"
    unfolding s3 using m2 by (simp add: markers_after_fetch)
  have t3: "tasks s3 ! j = AwaitingFetch" "j < length (tasks s3)"
    unfolding s3 using ij by (simp_all add: after_fetch_tasks)
  then have "fire e (FetchSettled j second) s3 = after_fetch j second s3" by simp
  then have m4: "marker_count (chatBox (fire e (FetchSettled j second) s3)) = 0"
    using m3 by (simp add: markers_after_fetch)
  from m1 box2 m2 ij(1,2) m3 t3(1) hideLoading_absent [OF m3] m4 show ?thesis
    by simp
qed

theorem overlapping_sends_share_marker_witness:
  "marker_count (chatBox (run v8_integers [QuickReplyClick 0, SendClick] track_quick_reply)) = 1
   \<and> marker_count (chatBox (run v8_integers
        [QuickReplyClick 0, SendClick, FetchSettled 1 (Resolved ())] track_quick_reply)) = 0
   \<and> tasks (run v8_integers
        [QuickReplyClick 0, SendClick, FetchSettled 1 (Resolved ())] track_quick_reply) ! 0 =
      AwaitingFetch
   \<and> marker_count (chatBox (run v8_integers
        [QuickReplyClick 0, SendClick, FetchSettled 1 (Resolved ()),
         FetchSettled 0 (Rejected ''timeout'')] track_quick_reply)) = 0"
proof -
  let ?s = track_quick_reply
  let ?s1 = "sendMessage_begin (Some ''Track my ticket'') ?s"
  let ?s2 = "sendMessage_begin None ?s1"
  let ?s3 = "fire v8_integers (FetchSettled 1 (Resolved ())) ?s2"
  have q1: "fire v8_integers (QuickReplyClick 0) ?s = ?s1"
    by (simp add: track_quick_reply_def blank_def)
  have "sendBtn ?s" by (simp add: track_quick_reply_def blank_def)
  then have q2: "fire v8_integers SendClick ?s1 = ?s2"
    by (simp add: begin_buttons)
  have h1: "marker_count (chatBox ?s) \<le> 1"
    by (simp add: track_quick_reply_def blank_def marker_count_def)
  have h2: "message_text (Some ''Track my ticket'') ?s \<noteq> []"
    by (simp add: message_text_def)
  have "manual_truthy (Some ''Track my ticket'')" by (simp add: manual_truthy_def)
  with h2 have u: "userInput ?s1 = ''typed text''"
    by (simp add: begin_userInput) (simp add: track_quick_reply_def blank_def)
  have "trim ''typed text'' = ''typed text''" by (simp add: trim_def js_whitespace_def)
  then have h4: "message_text None (?s1\<lparr>userInput := ''typed text''\<rparr>) \<noteq> []"
    by (simp add: message_text_def)
  have "?s1\<lparr>userInput := userInput ?s1\<rparr> = ?s1" by simp
  then have h5: "?s2 = sendMessage_begin None (?s1\<lparr>userInput := ''typed text''\<rparr>)"
    by (simp only: u)
  have h6: "(1 = length (tasks ?s) \<and> 0 = Suc (length (tasks ?s))) \<or>
     (1 = Suc (length (tasks ?s)) \<and> 0 = length (tasks ?s))"
    by (simp add: track_quick_reply_def blank_def)
  have e2: "run v8_integers [QuickReplyClick 0, SendClick] ?s = ?s2"
    by (simp only: run.simps q1 q2)
  have e3: "run v8_integers [QuickReplyClick 0, SendClick, FetchSettled 1 (Resolved ())] ?s = ?s3"
    by (simp only: run.simps q1 q2)
  have e4: "run v8_integers [QuickReplyClick 0, SendClick, FetchSettled 1 (Resolved ()),
      FetchSettled 0 (Rejected ''timeout'')] ?s =
    fire v8_integers (FetchSettled 0 (Rejected ''timeout'')) ?s3"
    by (simp only: run.simps q1 q2)
  from overlapping_sends_share_marker [OF h1 h2 refl h4 h5 h6 refl, of v8_integers
      "Resolved ()" "Rejected ''timeout''"]
  show ?thesis unfolding e2 e3 e4 by blast
qed

end
